theory Spec2Isabelle
  imports Complex_Main "HOL-Library.Word"
begin

section \<open>Numbers of the program\<close>

text \<open>
  The program stores C++ \<open>double\<close> values and one \<open>int\<close>. A \<open>double\<close> is modelled by
  the value it denotes: a real number, one of the two infinities, or not-a-number. The
  store only keeps, returns and converts such values, so rounding to 53 bits of precision
  and the sign of zero are not part of the model.
\<close>

datatype double = Finite real | PlusInf | MinusInf | NaN


text \<open>The literal of \<open>graph_params.h\<close>: \<open>#define M_PI 3.14159265358979323846\<close>.\<close>

definition M_PI :: real where
  "M_PI = 3.14159265358979323846"

text \<open>
  \<open>int\<close> is a 32-bit two's complement word, read with \<open>sint\<close>. The conversion
  \<open>static_cast<int>(value)\<close> discards the fractional part; when the truncated value
  does not fit the \<open>int\<close>, or the operand is an infinity or not-a-number, C++ leaves
  the behaviour undefined, which the model returns as a fault.
\<close>

datatype fault = CastOutOfRange | CloseNotOpen

definition trunc :: "real \<Rightarrow> int" where
  "trunc x = (if 0 \<le> x then \<lfloor>x\<rfloor> else \<lceil>x\<rceil>)"

definition INT_MIN :: int where
  "INT_MIN = - (2 ^ 31)"

definition INT_MAX :: int where
  "INT_MAX = 2 ^ 31 - 1"

fun double_to_int :: "double \<Rightarrow> fault + 32 word" where
  "double_to_int (Finite x) =
     (if INT_MIN \<le> trunc x \<and> trunc x \<le> INT_MAX then Inr (word_of_int (trunc x))
      else Inl CastOutOfRange)"
| "double_to_int PlusInf = Inl CastOutOfRange"
| "double_to_int MinusInf = Inl CastOutOfRange"
| "double_to_int NaN = Inl CastOutOfRange"

definition int_to_double :: "32 word \<Rightarrow> double" where
  "int_to_double w = Finite (real_of_int (sint w))"

section \<open>GraphParams: the parameter store\<close>

text \<open>
  \<open>struct GraphParams\<close> of \<open>graph_params.h\<close>. The fields \<open>a\<close>, \<open>b\<close>, \<open>A\<close>, \<open>B\<close> and
  \<open>delta\<close> carry the prefix \<open>p_\<close> here, since a record field is a constant of the theory
  and the single letters are wanted as variables.
\<close>

record GraphParams =
  p_a :: double
  p_b :: double
  p_A :: double
  p_B :: double
  p_delta :: double
  num_points :: "32 word"

text \<open>The default member initialisers.\<close>

definition GraphParams_init :: GraphParams where
  "GraphParams_init =
     \<lparr>p_a = Finite 3, p_b = Finite 2, p_A = Finite 1, p_B = Finite 1,
      p_delta = Finite (M_PI / 2), num_points = 1000\<rparr>"

text \<open>
  \<open>GraphParams::set\<close>: the chain of string comparisons, in the source's order. The
  result is the returned flag with the updated store.
\<close>

definition set_param :: "string \<Rightarrow> double \<Rightarrow> GraphParams \<Rightarrow> fault + (bool \<times> GraphParams)" where
  "set_param name v p =
     (if name = ''a'' then Inr (True, p\<lparr>p_a := v\<rparr>)
      else if name = ''b'' then Inr (True, p\<lparr>p_b := v\<rparr>)
      else if name = ''A'' then Inr (True, p\<lparr>p_A := v\<rparr>)
      else if name = ''B'' then Inr (True, p\<lparr>p_B := v\<rparr>)
      else if name = ''delta'' then Inr (True, p\<lparr>p_delta := v\<rparr>)
      else if name = ''points'' then
        (case double_to_int v of
           Inl e \<Rightarrow> Inl e
         | Inr i \<Rightarrow> Inr (True, p\<lparr>num_points := i\<rparr>))
      else Inr (False, p))"

text \<open>\<open>GraphParams::get\<close>; \<open>NAN\<close> for an unknown name.\<close>

definition get_param :: "string \<Rightarrow> GraphParams \<Rightarrow> double" where
  "get_param name p =
     (if name = ''a'' then p_a p
      else if name = ''b'' then p_b p
      else if name = ''A'' then p_A p
      else if name = ''B'' then p_B p
      else if name = ''delta'' then p_delta p
      else if name = ''points'' then int_to_double (num_points p)
      else NaN)"

text \<open>\<open>GraphParams::load_preset\<close>: five named entries, each assigning all six fields.\<close>

definition load_preset :: "string \<Rightarrow> GraphParams \<Rightarrow> bool \<times> GraphParams" where
  "load_preset name p =
     (if name = ''circle'' then
        (True, p\<lparr>p_a := Finite 1, p_b := Finite 1, p_A := Finite 1, p_B := Finite 1,
                 p_delta := Finite (M_PI / 2), num_points := 1000\<rparr>)
      else if name = ''figure8'' then
        (True, p\<lparr>p_a := Finite 1, p_b := Finite 2, p_A := Finite 1, p_B := Finite 1,
                 p_delta := Finite 0, num_points := 1000\<rparr>)
      else if name = ''lissajous'' then
        (True, p\<lparr>p_a := Finite 3, p_b := Finite 2, p_A := Finite 1, p_B := Finite 1,
                 p_delta := Finite (M_PI / 2), num_points := 1000\<rparr>)
      else if name = ''star'' then
        (True, p\<lparr>p_a := Finite 5, p_b := Finite 6, p_A := Finite 1, p_B := Finite 1,
                 p_delta := Finite (M_PI / 2), num_points := 1000\<rparr>)
      else if name = ''bowtie'' then
        (True, p\<lparr>p_a := Finite 2, p_b := Finite 3, p_A := Finite 1, p_B := Finite 1,
                 p_delta := Finite (M_PI / 4), num_points := 1000\<rparr>)
      else (False, p))"

text \<open>
  \<open>GraphParams::all\<close> builds a \<open>std::map\<close> from six pairs. The map is a partial
  function from names; \<open>all_size\<close> is its \<open>size()\<close>.
\<close>

definition all_params :: "GraphParams \<Rightarrow> (string \<rightharpoonup> double)" where
  "all_params p =
     map_of [(''a'', p_a p), (''b'', p_b p), (''A'', p_A p), (''B'', p_B p),
             (''delta'', p_delta p), (''points'', int_to_double (num_points p))]"

section \<open>C strings and the scanner\<close>

text \<open>
  \<open>std::string::c_str()\<close> read by a C function, and \<open>std::string += char*\<close>, both end
  at the first NUL byte.
\<close>

definition c_str :: "string \<Rightarrow> string" where
  "c_str s = takeWhile (\<lambda>c. c \<noteq> CHR 0x00) s"

text \<open>Character classes of the C locale, by character code.\<close>

definition isspace :: "char \<Rightarrow> bool" where
  "isspace c = (let n = (of_char c :: nat) in n = 32 \<or> (9 \<le> n \<and> n \<le> 13))"

definition isdigit :: "char \<Rightarrow> bool" where
  "isdigit c = (let n = (of_char c :: nat) in 48 \<le> n \<and> n \<le> 57)"

definition tolower :: "char \<Rightarrow> char" where
  "tolower c = (let n = (of_char c :: nat) in if 65 \<le> n \<and> n \<le> 90 then char_of (n + 32) else c)"

definition isxdigit :: "char \<Rightarrow> bool" where
  "isxdigit c = (let n = (of_char (tolower c) :: nat) in (48 \<le> n \<and> n \<le> 57) \<or> (97 \<le> n \<and> n \<le> 102))"

definition is_nchar :: "char \<Rightarrow> bool" where
  "is_nchar c = (let n = (of_char (tolower c) :: nat) in (48 \<le> n \<and> n \<le> 57) \<or> (97 \<le> n \<and> n \<le> 122) \<or> n = 95)"

definition digit_val :: "char \<Rightarrow> nat" where
  "digit_val c = (let n = (of_char (tolower c) :: nat) in if n \<le> 57 then n - 48 else n - 87)"

definition digits_value :: "nat \<Rightarrow> string \<Rightarrow> nat" where
  "digits_value base ds = foldl (\<lambda>acc c. base * acc + digit_val c) 0 ds"

definition skip_ws :: "string \<Rightarrow> string" where
  "skip_ws s = dropWhile isspace s"

text \<open>
  The \<open>%lf\<close> conversion accepts the subject sequence of \<open>strtod\<close> (C11 7.22.1.3): an
  optional sign, then a decimal number with optional exponent, a hexadecimal number
  with optional binary exponent, \<open>inf\<close>/\<open>infinity\<close>, or \<open>nan\<close> with an optional
  parenthesised tag, letters in either case. As a \<open>scanf\<close> conversion (C11 7.21.6.2) it
  takes the longest input that is a prefix of such a sequence and fails when that input
  is not itself one (a dangling exponent, \<open>0x\<close> without digits, \<open>infin\<close>).
  A magnitude too large for a \<open>double\<close> is returned as infinity.
\<close>

definition round_double :: "real \<Rightarrow> double" where
  "round_double x =
     (if 2 ^ 1024 - 2 ^ 970 \<le> x then PlusInf
      else if x \<le> - (2 ^ 1024 - 2 ^ 970) then MinusInf
      else Finite x)"

fun negate :: "double \<Rightarrow> double" where
  "negate (Finite x) = Finite (- x)"
| "negate PlusInf = MinusInf"
| "negate MinusInf = PlusInf"
| "negate NaN = NaN"

definition scale :: "real \<Rightarrow> nat \<Rightarrow> int \<Rightarrow> real" where
  "scale m base e = (if 0 \<le> e then m * real base ^ nat e else m / real base ^ nat (- e))"

fun match_len :: "string \<Rightarrow> string \<Rightarrow> nat" where
  "match_len (p # ps) (c # cs) = (if tolower c = p then Suc (match_len ps cs) else 0)"
| "match_len _ _ = 0"

text \<open>Exponent part after the letter: optional sign and at least one decimal digit.\<close>

definition scan_exponent :: "string \<Rightarrow> (int \<times> string) option" where
  "scan_exponent s =
     (let (neg, s1) = (case s of [] \<Rightarrow> (False, s)
                       | c # r \<Rightarrow> if c = CHR ''-'' then (True, r)
                                  else if c = CHR ''+'' then (False, r) else (False, s));
          ds = takeWhile isdigit s1
      in if ds = [] then None
         else Some ((if neg then - int (digits_value 10 ds) else int (digits_value 10 ds)),
                    drop (length ds) s1))"

text \<open>
  Digits with an optional radix point, then an optional exponent introduced by
  \<open>expc\<close>: base 10 with \<open>e\<close> scaling by powers of 10, base 16 with \<open>p\<close> scaling by
  powers of 2.
\<close>

definition scan_number :: "nat \<Rightarrow> (char \<Rightarrow> bool) \<Rightarrow> char \<Rightarrow> nat \<Rightarrow> string \<Rightarrow> (real \<times> string) option" where
  "scan_number base isdig expc ebase s =
     (let ip = takeWhile isdig s;
          s1 = drop (length ip) s;
          fp = (case s1 of [] \<Rightarrow> [] | c # r \<Rightarrow> if c = CHR ''.'' then takeWhile isdig r else []);
          s2 = (case s1 of [] \<Rightarrow> [] | c # r \<Rightarrow> if c = CHR ''.'' then drop (length fp) r else s1);
          m = scale (real (digits_value base (ip @ fp))) base (- int (length fp))
      in if ip = [] \<and> fp = [] then None
         else (case s2 of
                 [] \<Rightarrow> Some (m, s2)
               | c # r \<Rightarrow>
                   if tolower c = expc then
                     (case scan_exponent r of
                        None \<Rightarrow> None
                      | Some (e, s3) \<Rightarrow> Some (scale m ebase e, s3))
                   else Some (m, s2)))"

definition scan_nan_tag :: "string \<Rightarrow> string option" where
  "scan_nan_tag s =
     (case s of
        [] \<Rightarrow> Some s
      | c # r \<Rightarrow>
          if c = CHR ''('' then
            (case dropWhile is_nchar r of
               [] \<Rightarrow> None
             | d # r' \<Rightarrow> if d = CHR '')'' then Some r' else None)
          else Some s)"

definition is_hex_prefix :: "string \<Rightarrow> bool" where
  "is_hex_prefix s = (case s of c # x # _ \<Rightarrow> c = CHR ''0'' \<and> tolower x = CHR ''x'' | _ \<Rightarrow> False)"

definition scan_magnitude :: "string \<Rightarrow> (double \<times> string) option" where
  "scan_magnitude s =
     (let k_inf = match_len ''infinity'' s; k_nan = match_len ''nan'' s
      in if k_inf = 8 then Some (PlusInf, drop 8 s)
         else if k_inf = 3 then Some (PlusInf, drop 3 s)
         else if 0 < k_inf then None
         else if k_nan = 3 then map_option (\<lambda>r. (NaN, r)) (scan_nan_tag (drop 3 s))
         else if 0 < k_nan then None
         else if is_hex_prefix s then
           map_option (\<lambda>(x, r). (round_double x, r)) (scan_number 16 isxdigit (CHR ''p'') 2 (drop 2 s))
         else
           map_option (\<lambda>(x, r). (round_double x, r)) (scan_number 10 isdigit (CHR ''e'') 10 s))"

definition scan_float :: "string \<Rightarrow> (double \<times> string) option" where
  "scan_float s =
     (case s of
        [] \<Rightarrow> None
      | c # r \<Rightarrow>
          if c = CHR ''-'' then map_option (\<lambda>(v, t). (negate v, t)) (scan_magnitude r)
          else if c = CHR ''+'' then scan_magnitude r
          else scan_magnitude s)"

text \<open>
  \<open>sscanf\<close> over a format given as its directives: an ordinary character must be the
  next input character, white space in the format skips any white space of the input,
  \<open>%Ns\<close> skips white space and takes at most N characters up to the next white space,
  \<open>%lf\<close> skips white space and takes a number. The scan ends at the first directive that
  fails: on an input failure (the input has ended) or a matching failure. The return
  value is the number of items assigned, or \<open>EOF\<close> when the input ended before the
  first conversion.
\<close>

datatype directive = Lit char | White | Conv_s nat | Conv_lf

datatype item = Str string | Dbl double

datatype scan_end = Complete | InputFailure | MatchingFailure

fun scan :: "directive list \<Rightarrow> string \<Rightarrow> item list \<times> scan_end" where
  "scan [] inp = ([], Complete)"
| "scan (Lit c # ds) inp =
     (case inp of
        [] \<Rightarrow> ([], InputFailure)
      | x # xs \<Rightarrow> if x = c then scan ds xs else ([], MatchingFailure))"
| "scan (White # ds) inp = scan ds (skip_ws inp)"
| "scan (Conv_s w # ds) inp =
     (let i = skip_ws inp
      in if i = [] then ([], InputFailure)
         else (let tok = take w (takeWhile (\<lambda>c. \<not> isspace c) i)
               in case scan ds (drop (length tok) i) of (its, e) \<Rightarrow> (Str tok # its, e)))"
| "scan (Conv_lf # ds) inp =
     (let i = skip_ws inp
      in if i = [] then ([], InputFailure)
         else (case scan_float i of
                 None \<Rightarrow> ([], MatchingFailure)
               | Some (v, rest) \<Rightarrow> (case scan ds rest of (its, e) \<Rightarrow> (Dbl v # its, e))))"

definition EOF :: int where
  "EOF = - 1"

definition sscanf :: "string \<Rightarrow> directive list \<Rightarrow> int \<times> item list" where
  "sscanf str fmt =
     (case scan fmt str of
        (its, e) \<Rightarrow> (if its = [] \<and> e = InputFailure then EOF else int (length its), its))"

text \<open>The two formats of \<open>process_line\<close>: \<open>"SET %63s %lf"\<close> and \<open>"PRESET %63s"\<close>.\<close>

definition fmt_SET :: "directive list" where
  "fmt_SET = map Lit ''SET'' @ [White, Conv_s 63, White, Conv_lf]"

definition fmt_PRESET :: "directive list" where
  "fmt_PRESET = map Lit ''PRESET'' @ [White, Conv_s 63]"

section \<open>The graph window and the line handler\<close>

text \<open>
  \<open>GraphWindow\<close> owns the store (\<open>canvas_->params\<close>); \<open>show()\<close> makes the window
  visible. The slider widgets and the redraw request of \<open>sync_and_redraw\<close> are state
  of the toolkit and are not modelled. The global \<open>g_graph\<close> may be null.
\<close>

record GraphWindow =
  params :: GraphParams
  shown :: bool

definition show_window :: "GraphWindow \<Rightarrow> GraphWindow" where
  "show_window gw = gw\<lparr>shown := True\<rparr>"

text \<open>
  \<open>PluginProcess::process_line\<close>. The argument is the global graph window as
  \<open>get_graph_window()\<close> returns it. The items are read only when the return value says
  that they were assigned.
\<close>

definition process_line :: "string \<Rightarrow> GraphWindow option \<Rightarrow> fault + GraphWindow option" where
  "process_line line g =
     (case g of
        None \<Rightarrow> Inr None
      | Some gw \<Rightarrow>
          (let r = sscanf (c_str line) fmt_SET
           in if fst r = 2 then
                (case snd r of
                   [Str arg, Dbl v] \<Rightarrow>
                     (case set_param arg v (params gw) of
                        Inl e \<Rightarrow> Inl e
                      | Inr (ok, p) \<Rightarrow> Inr (Some (show_window (gw\<lparr>params := p\<rparr>))))
                 | _ \<Rightarrow> Inr (Some gw))
              else
                (let r' = sscanf (c_str line) fmt_PRESET
                 in if fst r' = 1 then
                      (case snd r' of
                         [Str arg] \<Rightarrow>
                           (case load_preset arg (params gw) of
                              (ok, p) \<Rightarrow> Inr (Some (show_window (gw\<lparr>params := p\<rparr>))))
                       | _ \<Rightarrow> Inr (Some gw))
                    else Inr (Some gw))))"

section \<open>PluginProcess: the child process supervisor\<close>

text \<open>
  A \<open>FILE*\<close> is an address; \<open>nullptr\<close> is \<open>None\<close>. The members \<open>pipe_\<close>,
  \<open>fd_\<close>, \<open>line_buf_\<close> and \<open>script_path_\<close> lose the trailing underscore, which a name
  cannot end in here. The operating system and the
  toolkit are a record: the files by path, the open \<open>popen\<close> streams with the command
  each one runs, the descriptors registered with \<open>Fl::add_fd\<close>, and the descriptors in
  non-blocking mode.
\<close>

type_synonym FILE = nat

record PluginProcess =
  pipe :: "FILE option"
  fd :: int
  line_buf :: string
  script_path :: string

definition PluginProcess_init :: PluginProcess where
  "PluginProcess_init = \<lparr>pipe = None, fd = - 1, line_buf = [], script_path = []\<rparr>"

record world =
  files :: "string \<rightharpoonup> string"
  streams :: "FILE \<rightharpoonup> string"
  fl_fds :: "int set"
  nonblocking :: "int set"

definition running :: "PluginProcess \<Rightarrow> bool" where
  "running pp = (pipe pp \<noteq> None)"

text \<open>\<open>strstr(haystack, needle) != nullptr\<close>.\<close>

fun strstr :: "string \<Rightarrow> string \<Rightarrow> bool" where
  "strstr [] needle = (needle = [])"
| "strstr (c # cs) needle = (take (length needle) (c # cs) = needle \<or> strstr cs needle)"

text \<open>\<open>std::remove(path)\<close>; its result is ignored by the callers.\<close>

definition remove_file :: "string \<Rightarrow> world \<Rightarrow> world" where
  "remove_file path w = w\<lparr>files := (files w)(path := None)\<rparr>"

text \<open>\<open>pclose\<close> of a stream that is not open is undefined.\<close>

definition pclose :: "FILE \<Rightarrow> world \<Rightarrow> fault + world" where
  "pclose p w =
     (if p \<in> dom (streams w) then Inr (w\<lparr>streams := (streams w)(p := None)\<rparr>)
      else Inl CloseNotOpen)"

text \<open>
  \<open>PluginProcess::launch\<close>. Whether \<open>fopen\<close> succeeds, and what \<open>popen\<close> returns (the
  stream with its descriptor, or null), is decided by the system: both outcomes are
  arguments.
\<close>

text \<open>The path of the script file: the extension follows the interpreter's name.\<close>

definition temp_path :: "string \<Rightarrow> string" where
  "temp_path interpreter =
     ''/tmp/fltk_plugin'' @ (if strstr interpreter ''python'' then ''.py'' else ''.tcl'')"

definition launch ::
    "string \<Rightarrow> string \<Rightarrow> string \<Rightarrow> bool \<Rightarrow> (FILE \<times> int) option \<Rightarrow> PluginProcess \<times> world
       \<Rightarrow> bool \<times> PluginProcess \<times> world" where
  "launch interpreter script args fopen_ok popen_res s =
     (case s of (pp, w) \<Rightarrow>
        if pipe pp \<noteq> None then (True, pp, w)
        else
          (let path = temp_path interpreter;
               pp1 = pp\<lparr>script_path := path\<rparr>
           in if \<not> fopen_ok then (False, pp1, w)
              else
                (let w1 = w\<lparr>files := (files w)(path \<mapsto> c_str script)\<rparr>;
                     cmd = interpreter @ '' '' @ path @ '' '' @ args @ '' 2>&1''
                 in case popen_res of
                      None \<Rightarrow> (False, pp1, remove_file path w1)
                    | Some (p, fno) \<Rightarrow>
                        (True, pp1\<lparr>pipe := Some p, fd := fno\<rparr>,
                         w1\<lparr>streams := (streams w1)(p \<mapsto> cmd),
                            nonblocking := insert fno (nonblocking w1),
                            fl_fds := insert fno (fl_fds w1)\<rparr>))))"

text \<open>\<open>PluginProcess::stop\<close>: the two guarded blocks, in order.\<close>

definition stop :: "PluginProcess \<times> world \<Rightarrow> fault + (PluginProcess \<times> world)" where
  "stop s =
     (case s of (pp, w) \<Rightarrow>
        (case (case pipe pp of
                 None \<Rightarrow> Inr (pp, w)
               | Some p \<Rightarrow>
                   (case pclose p (w\<lparr>fl_fds := fl_fds w - {fd pp}\<rparr>) of
                      Inl e \<Rightarrow> Inl e
                    | Inr w' \<Rightarrow> Inr (pp\<lparr>pipe := None, fd := - 1, line_buf := []\<rparr>, w'))) of
           Inl e \<Rightarrow> Inl e
         | Inr (pp1, w1) \<Rightarrow>
             if script_path pp1 \<noteq> [] then
               Inr (pp1\<lparr>script_path := []\<rparr>, remove_file (script_path pp1) w1)
             else Inr (pp1, w1)))"

text \<open>
  The result of \<open>read(fd_, buf, sizeof(buf) - 1)\<close>: the bytes read (their number is the
  return value, at most 1023, and none at end of stream), or \<open>-1\<close> with \<open>errno\<close>.
\<close>

text \<open>
  The error numbers are symbolic; where the platform gives \<open>EAGAIN\<close> and
  \<open>EWOULDBLOCK\<close> one value, either constructor stands for it.
\<close>

datatype errno = EAGAIN | EWOULDBLOCK | EINTR | EBADF | EIO | EINVAL | EFAULT

datatype read_result = Bytes string | Error errno

fun read_n :: "read_result \<Rightarrow> int" where
  "read_n (Bytes bs) = int (length bs)"
| "read_n (Error e) = - 1"

fun read_errno :: "read_result \<Rightarrow> errno option" where
  "read_errno (Bytes bs) = None"
| "read_errno (Error e) = Some e"

fun read_buf :: "read_result \<Rightarrow> string" where
  "read_buf (Bytes bs) = bs"
| "read_buf (Error e) = []"

text \<open>\<open>std::string::find(c)\<close>: the first position of \<open>c\<close>, or \<open>npos\<close>.\<close>

definition find_char :: "char \<Rightarrow> string \<Rightarrow> nat option" where
  "find_char c s = (if c \<in> set s then Some (length (takeWhile (\<lambda>x. x \<noteq> c) s)) else None)"

text \<open>
  The \<open>while\<close> loop of \<open>on_data\<close> over the buffer: take the text before the first
  newline, hand it to the line handler, erase it with its newline, repeat. The line
  handler is an argument; in the program it is \<open>process_line\<close>.
\<close>

function drain :: "(string \<Rightarrow> 's \<Rightarrow> fault + 's) \<Rightarrow> string \<Rightarrow> 's \<Rightarrow> fault + (string \<times> 's)" where
  "drain h buf s =
     (case find_char (CHR 0x0A) buf of
        None \<Rightarrow> Inr (buf, s)
      | Some pos \<Rightarrow>
          (case h (take pos buf) s of
             Inl e \<Rightarrow> Inl e
           | Inr s' \<Rightarrow> drain h (drop (pos + 1) buf) s'))"
  by pat_completeness auto
termination
proof (relation "measure (\<lambda>(h, buf, s). length buf)")
  show "wf (measure (\<lambda>(h, buf, s). length buf))" by simp
next
  fix h :: "string \<Rightarrow> 's \<Rightarrow> fault + 's" and buf :: string and s s' :: 's and pos :: nat
  assume "find_char (CHR 0x0A) buf = Some pos"
  then have "buf \<noteq> []"
    by (auto simp: find_char_def split: if_splits)
  then show "((h, drop (pos + 1) buf, s'), (h, buf, s)) \<in> measure (\<lambda>(h, buf, s). length buf)"
    by simp
qed

declare drain.simps [simp del]

text \<open>\<open>PluginProcess::on_data\<close> with the line handler \<open>h\<close>, given the result of the read.\<close>

definition on_data_with ::
    "(string \<Rightarrow> 's \<Rightarrow> fault + 's) \<Rightarrow> read_result \<Rightarrow> PluginProcess \<times> world \<times> 's
       \<Rightarrow> fault + (PluginProcess \<times> world \<times> 's)" where
  "on_data_with h r st =
     (case st of (pp, w, s) \<Rightarrow>
        if read_n r < 0 \<and> (read_errno r = Some EAGAIN \<or> read_errno r = Some EWOULDBLOCK)
        then Inr (pp, w, s)
        else if read_n r \<le> 0 then
          (case stop (pp, w) of Inl e \<Rightarrow> Inl e | Inr (pp', w') \<Rightarrow> Inr (pp', w', s))
        else
          (case drain h (line_buf pp @ c_str (read_buf r)) s of
             Inl e \<Rightarrow> Inl e
           | Inr (buf, s') \<Rightarrow> Inr (pp\<lparr>line_buf := buf\<rparr>, w, s')))"

definition on_data ::
    "read_result \<Rightarrow> PluginProcess \<times> world \<times> GraphWindow option
       \<Rightarrow> fault + (PluginProcess \<times> world \<times> GraphWindow option)" where
  "on_data = on_data_with process_line"

text \<open>The readiness callback run once for each read result of a list, in order.\<close>

fun feed ::
    "(string \<Rightarrow> 's \<Rightarrow> fault + 's) \<Rightarrow> read_result list \<Rightarrow> PluginProcess \<times> world \<times> 's
       \<Rightarrow> fault + (PluginProcess \<times> world \<times> 's)" where
  "feed h [] st = Inr st"
| "feed h (r # rs) st = (case on_data_with h r st of Inl e \<Rightarrow> Inl e | Inr st' \<Rightarrow> feed h rs st')"

section \<open>Notions of the specification\<close>

text \<open>The closed sets of names: the fields of the store and the preset catalog.\<close>

definition known_names :: "string list" where
  "known_names = [''a'', ''b'', ''A'', ''B'', ''delta'', ''points'']"



text \<open>A handle agrees with the system when its stream, if it has one, is open.\<close>

definition handle_ok :: "PluginProcess \<times> world \<Rightarrow> bool" where
  "handle_ok s =
     (case s of (pp, w) \<Rightarrow> (case pipe pp of None \<Rightarrow> True | Some p \<Rightarrow> p \<in> dom (streams w)))"

definition world_init :: world where
  "world_init = \<lparr>files = Map.empty, streams = Map.empty, fl_fds = {}, nonblocking = {}\<rparr>"

definition GraphWindow_init :: GraphWindow where
  "GraphWindow_init = \<lparr>params = GraphParams_init, shown = False\<rparr>"

text \<open>
  The newline-terminated segments of a text, in order, and the partial segment after
  the last newline.
\<close>

fun split_lines :: "string \<Rightarrow> string list \<times> string" where
  "split_lines [] = ([], [])"
| "split_lines (c # cs) =
     (case split_lines cs of
        (ls, r) \<Rightarrow>
          if c = CHR 0x0A then ([] # ls, r)
          else (case ls of [] \<Rightarrow> ([], c # r) | l # ls' \<Rightarrow> ((c # l) # ls', r)))"

text \<open>A line handler applied to each line of a list once, in order, up to the first fault.\<close>

fun run_lines :: "(string \<Rightarrow> 's \<Rightarrow> fault + 's) \<Rightarrow> string list \<Rightarrow> 's \<Rightarrow> fault + 's" where
  "run_lines h [] s = Inr s"
| "run_lines h (l # ls) s = (case h l s of Inl e \<Rightarrow> Inl e | Inr s' \<Rightarrow> run_lines h ls s')"

text \<open>The line handler that only records the lines it is given.\<close>

definition record_line :: "string \<Rightarrow> string list \<Rightarrow> fault + string list" where
  "record_line l tr = Inr (tr @ [l])"

text \<open>
  A handle as \<open>launch\<close> leaves it when \<open>popen\<close> returns stream 1 on descriptor 5, with
  a partial line in its buffer, and the system around it.
\<close>

definition handle_running :: PluginProcess where
  "handle_running =
     \<lparr>pipe = Some 1, fd = 5, line_buf = ''SET b'', script_path = ''/tmp/fltk_plugin.tcl''\<rparr>"

definition world_running :: world where
  "world_running =
     \<lparr>files = [''/tmp/fltk_plugin.tcl'' \<mapsto> ''package require Tk''],
      streams = [1 \<mapsto> ''tclsh /tmp/fltk_plugin.tcl 3 2 2>&1''],
      fl_fds = {5}, nonblocking = {5}\<rparr>"

text \<open>
  The protocol message of the specification, and the message a line stands for in
  \<open>process_line\<close>: \<open>SetMsg\<close> when the first \<open>sscanf\<close> returns 2, else \<open>PresetMsg\<close>
  when the second returns 1, else none.
\<close>

datatype ProtocolMessage = SetMsg string double | PresetMsg string

definition decode :: "string \<Rightarrow> ProtocolMessage option" where
  "decode line =
     (let r = sscanf (c_str line) fmt_SET
      in if fst r = 2 then
           (case snd r of [Str arg, Dbl v] \<Rightarrow> Some (SetMsg arg v) | _ \<Rightarrow> None)
         else
           (let r' = sscanf (c_str line) fmt_PRESET
            in if fst r' = 1 then
                 (case snd r' of [Str arg] \<Rightarrow> Some (PresetMsg arg) | _ \<Rightarrow> None)
               else None))"




section \<open>Properties of the parameter store\<close>

lemma sint_cast: "INT_MIN \<le> k \<Longrightarrow> k \<le> INT_MAX \<Longrightarrow> sint (word_of_int k :: 32 word) = k"
  by (simp add: INT_MIN_def INT_MAX_def signed_of_int signed_take_bit_int_eq_self)

lemma int_to_double_cast:
  "INT_MIN \<le> k \<Longrightarrow> k \<le> INT_MAX \<Longrightarrow> int_to_double (word_of_int k) = Finite (real_of_int k)"
  unfolding int_to_double_def by (simp only: sint_cast)

lemma trunc_near: "\<bar>real_of_int (trunc x) - x\<bar> < 1"
  unfolding trunc_def by (auto; linarith)


text \<open>
  C1, as the claim states it, fails: \<open>set("points", 1e10)\<close> cannot store the truncated
  value in an \<open>int\<close>; the conversion is undefined, so the call neither returns true nor
  makes \<open>get\<close> return the truncated value.
\<close>

theorem set_points_out_of_range:
  "set_param ''points'' (Finite 10000000000) GraphParams_init = Inl CastOutOfRange"
  by (simp add: set_param_def trunc_def INT_MIN_def INT_MAX_def)

text \<open>
  C1, amended: for each of the five real fields \<open>set\<close> returns true and \<open>get\<close> then
  returns exactly the value stored, whatever it is; for \<open>points\<close>, when the truncated
  value fits an \<open>int\<close>, \<open>set\<close> returns true and \<open>get\<close> returns the truncated value, less
  than 1 away from the argument; for an unknown name \<open>set\<close> returns false, changes
  nothing, and \<open>get\<close> returns not-a-number.
\<close>

theorem set_get_roundtrip:
  "(n \<in> {''a'', ''b'', ''A'', ''B'', ''delta''} \<longrightarrow>
      (\<exists>p'. set_param n v p = Inr (True, p') \<and> get_param n p' = v))
   \<and> (INT_MIN \<le> trunc x \<and> trunc x \<le> INT_MAX \<longrightarrow>
      (\<exists>p'. set_param ''points'' (Finite x) p = Inr (True, p')
          \<and> get_param ''points'' p' = Finite (real_of_int (trunc x)))
      \<and> \<bar>real_of_int (trunc x) - x\<bar> < 1)
   \<and> (m \<notin> set known_names \<longrightarrow> set_param m w p = Inr (False, p) \<and> get_param m p = NaN)"
  by (auto simp: set_param_def get_param_def known_names_def int_to_double_cast trunc_near)

theorem set_get_roundtrip_witness:
  "(\<exists>p'. set_param ''delta'' (Finite 1.23) GraphParams_init = Inr (True, p')
        \<and> get_param ''delta'' p' = Finite 1.23)
   \<and> (\<exists>p'. set_param ''points'' (Finite 500.75) GraphParams_init = Inr (True, p')
          \<and> get_param ''points'' p' = Finite 500)
   \<and> set_param ''bogus'' (Finite 1) GraphParams_init = Inr (False, GraphParams_init)
   \<and> get_param ''bogus'' GraphParams_init = NaN"
  using set_get_roundtrip [of "''delta''" "Finite 1.23" GraphParams_init "500.75" "''bogus''" "Finite 1"]
  by (simp add: known_names_def trunc_def INT_MIN_def INT_MAX_def)



text \<open>
  C9: the map of \<open>all()\<close> has the six field names as its keys, six entries, and under
  each key the value \<open>get\<close> returns for it.
\<close>

theorem enumerate_snapshot:
  "dom (all_params p) = {''a'', ''b'', ''A'', ''B'', ''delta'', ''points''}
   \<and> card (dom (all_params p)) = 6
   \<and> (\<forall>n \<in> dom (all_params p). all_params p n = Some (get_param n p))"
proof -
  have d: "dom (all_params p) = {''a'', ''b'', ''A'', ''B'', ''delta'', ''points''}"
    by (auto simp: all_params_def split: if_splits)
  have c: "card {''a'', ''b'', ''A'', ''B'', ''delta'', ''points''} = 6"
    by simp
  have g: "\<forall>n \<in> {''a'', ''b'', ''A'', ''B'', ''delta'', ''points''}.
      all_params p n = Some (get_param n p)"
    by (simp add: all_params_def get_param_def)
  show ?thesis using d c g by simp
qed

theorem enumerate_snapshot_witness:
  "''points'' \<in> dom (all_params GraphParams_init)
   \<and> all_params GraphParams_init ''points'' = Some (Finite 1000)"
  using enumerate_snapshot [of GraphParams_init]
  by (simp add: get_param_def GraphParams_init_def int_to_double_def)

text \<open>
  C10: \<open>set\<close> with a known name leaves the five other fields as they were, and so what
  \<open>get\<close> returns for every other name. The call returns except when the name is
  \<open>points\<close> and the conversion of the value to \<open>int\<close> is undefined.
\<close>

theorem set_frame:
  "n \<in> set known_names \<Longrightarrow>
     (case set_param n v p of
        Inr (ok, p') \<Rightarrow>
          (n \<noteq> ''a'' \<longrightarrow> p_a p' = p_a p) \<and> (n \<noteq> ''b'' \<longrightarrow> p_b p' = p_b p)
          \<and> (n \<noteq> ''A'' \<longrightarrow> p_A p' = p_A p) \<and> (n \<noteq> ''B'' \<longrightarrow> p_B p' = p_B p)
          \<and> (n \<noteq> ''delta'' \<longrightarrow> p_delta p' = p_delta p)
          \<and> (n \<noteq> ''points'' \<longrightarrow> num_points p' = num_points p)
          \<and> (\<forall>m. m \<noteq> n \<longrightarrow> get_param m p' = get_param m p)
      | Inl e \<Rightarrow> n = ''points'' \<and> double_to_int v = Inl e)"
  by (auto simp: set_param_def get_param_def known_names_def split: sum.splits)

theorem set_frame_witness:
  "set_param ''b'' (Finite 7) GraphParams_init = Inr (True, GraphParams_init\<lparr>p_b := Finite 7\<rparr>)
   \<and> p_a (GraphParams_init\<lparr>p_b := Finite 7\<rparr>) = p_a GraphParams_init
   \<and> num_points (GraphParams_init\<lparr>p_b := Finite 7\<rparr>) = num_points GraphParams_init
   \<and> get_param ''delta'' (GraphParams_init\<lparr>p_b := Finite 7\<rparr>) = get_param ''delta'' GraphParams_init"
  using set_frame [of "''b''" "Finite 7" GraphParams_init]
  by (simp add: known_names_def set_param_def)




section \<open>Properties of the supervisor's lifecycle\<close>

lemma stop_not_running:
  "pipe pp = None \<Longrightarrow> stop (pp, w) =
     (if script_path pp \<noteq> [] then Inr (pp\<lparr>script_path := []\<rparr>, remove_file (script_path pp) w) else Inr (pp, w))"
  by (simp add: stop_def)

lemma stop_running:
  "pipe pp = Some p \<Longrightarrow> p \<in> dom (streams w) \<Longrightarrow> stop (pp, w) =
     Inr (pp\<lparr>pipe := None, fd := - 1, line_buf := [], script_path := []\<rparr>,
          (if script_path pp \<noteq> [] then remove_file (script_path pp) else id)
            (w\<lparr>fl_fds := fl_fds w - {fd pp}, streams := (streams w)(p := None)\<rparr>))"
  by (auto simp: stop_def pclose_def)

lemma launch_example:
  "launch ''tclsh'' ''package require Tk'' ''3 2'' True (Some (1, 5)) (PluginProcess_init, world_init)
     = (True, handle_running\<lparr>line_buf := []\<rparr>, world_running)"
  by (simp add: launch_def temp_path_def PluginProcess_init_def world_init_def handle_running_def
      world_running_def c_str_def Let_def)

text \<open>
  C7: \<open>stop()\<close> on a handle that was never launched changes nothing. On any handle
  whose stream, if set, is open, \<open>stop()\<close> returns without fault and leaves
  \<open>running()\<close> false; if the handle was running, the stream is closed, the descriptor
  is unregistered and reset, the line buffer is empty, and no file is left at the script
  path; a second \<open>stop()\<close> returns the same state.
\<close>

theorem stop_idempotent:
  "stop (PluginProcess_init, w0) = Inr (PluginProcess_init, w0)
   \<and> (handle_ok (pp, w) \<longrightarrow>
        (\<exists>pp' w'. stop (pp, w) = Inr (pp', w')
           \<and> \<not> running pp' \<and> script_path pp' = []
           \<and> stop (pp', w') = Inr (pp', w')
           \<and> (\<forall>p. pipe pp = Some p \<longrightarrow>
                 p \<notin> dom (streams w') \<and> fd pp \<notin> fl_fds w' \<and> fd pp' = - 1 \<and> line_buf pp' = [])
           \<and> (script_path pp \<noteq> [] \<longrightarrow> files w' (script_path pp) = None)))"
proof -
  have init: "stop (PluginProcess_init, w0) = Inr (PluginProcess_init, w0)"
    by (simp add: stop_def PluginProcess_init_def)
  have main: "\<exists>pp' w'. stop (pp, w) = Inr (pp', w')
           \<and> \<not> running pp' \<and> script_path pp' = []
           \<and> stop (pp', w') = Inr (pp', w')
           \<and> (\<forall>p. pipe pp = Some p \<longrightarrow>
                 p \<notin> dom (streams w') \<and> fd pp \<notin> fl_fds w' \<and> fd pp' = - 1 \<and> line_buf pp' = [])
           \<and> (script_path pp \<noteq> [] \<longrightarrow> files w' (script_path pp) = None)" if ok: "handle_ok (pp, w)"
  proof (cases "pipe pp")
    case None
    then show ?thesis
      by (simp add: stop_not_running running_def remove_file_def)
  next
    case (Some p)
    with ok have "p \<in> dom (streams w)" by (simp add: handle_ok_def)
    with Some show ?thesis
      by (simp add: stop_running stop_not_running running_def remove_file_def)
  qed
  show ?thesis using init main by blast
qed

theorem stop_idempotent_witness:
  "handle_ok (handle_running, world_running)
   \<and> stop (handle_running, world_running)
       = Inr (PluginProcess_init, world_init\<lparr>nonblocking := {5}\<rparr>)
   \<and> stop (PluginProcess_init, world_init\<lparr>nonblocking := {5}\<rparr>)
       = Inr (PluginProcess_init, world_init\<lparr>nonblocking := {5}\<rparr>)
   \<and> \<not> running PluginProcess_init"
proof -
  have ok: "handle_ok (handle_running, world_running)"
    by (simp add: handle_ok_def handle_running_def world_running_def)
  have st: "stop (handle_running, world_running)
       = Inr (PluginProcess_init, world_init\<lparr>nonblocking := {5}\<rparr>)"
    by (simp add: stop_def pclose_def remove_file_def handle_running_def world_running_def
        PluginProcess_init_def world_init_def)
  show ?thesis
    using stop_idempotent [of "world_init\<lparr>nonblocking := {5}\<rparr>" handle_running world_running] ok st
    by (simp add: running_def PluginProcess_init_def)
qed

text \<open>
  C5: on a read of \<open>-1\<close> with \<open>EAGAIN\<close> or \<open>EWOULDBLOCK\<close> the callback returns
  the state as it was, so a running handle stays running and nothing of \<open>stop()\<close> has
  happened; on a read of zero bytes, or \<open>-1\<close> with any other error, the callback is
  \<open>stop()\<close>, after which \<open>running()\<close> is false.
\<close>

theorem on_data_stop_policy:
  "(e = EAGAIN \<or> e = EWOULDBLOCK \<longrightarrow> on_data (Error e) st = Inr st)
   \<and> (r = Bytes [] \<or> (r = Error e' \<and> e' \<noteq> EAGAIN \<and> e' \<noteq> EWOULDBLOCK) \<longrightarrow>
        on_data r (pp, w, g) =
          (case stop (pp, w) of Inl f \<Rightarrow> Inl f | Inr (pp', w') \<Rightarrow> Inr (pp', w', g))
        \<and> (handle_ok (pp, w) \<longrightarrow>
             (\<exists>pp' w'. on_data r (pp, w, g) = Inr (pp', w', g) \<and> \<not> running pp')))"
proof -
  have a: "e = EAGAIN \<or> e = EWOULDBLOCK \<Longrightarrow> on_data (Error e) st = Inr st"
    by (cases st) (auto simp: on_data_def on_data_with_def)
  have b: "on_data r (pp, w, g) =
          (case stop (pp, w) of Inl f \<Rightarrow> Inl f | Inr (pp', w') \<Rightarrow> Inr (pp', w', g))"
    if "r = Bytes [] \<or> (r = Error e' \<and> e' \<noteq> EAGAIN \<and> e' \<noteq> EWOULDBLOCK)"
    using that by (auto simp: on_data_def on_data_with_def)
  have c: "\<exists>pp' w'. stop (pp, w) = Inr (pp', w') \<and> \<not> running pp'" if "handle_ok (pp, w)"
  proof (cases "pipe pp")
    case None
    then show ?thesis by (simp add: stop_not_running running_def)
  next
    case (Some p)
    with that have "p \<in> dom (streams w)" by (simp add: handle_ok_def)
    with Some show ?thesis by (simp add: stop_running running_def)
  qed
  have d: "\<exists>pp' w'. on_data r (pp, w, g) = Inr (pp', w', g) \<and> \<not> running pp'"
    if "r = Bytes [] \<or> (r = Error e' \<and> e' \<noteq> EAGAIN \<and> e' \<noteq> EWOULDBLOCK)" "handle_ok (pp, w)"
    using b [OF that(1)] c [OF that(2)] by auto
  show ?thesis using a b d by blast
qed

theorem on_data_stop_policy_witness:
  "on_data (Error EAGAIN) (handle_running, world_running, Some GraphWindow_init)
     = Inr (handle_running, world_running, Some GraphWindow_init)
   \<and> running handle_running
   \<and> on_data (Error EIO) (handle_running, world_running, Some GraphWindow_init)
     = Inr (PluginProcess_init, world_init\<lparr>nonblocking := {5}\<rparr>, Some GraphWindow_init)
   \<and> \<not> running PluginProcess_init"
proof -
  have ok: "handle_ok (handle_running, world_running)"
    by (simp add: handle_ok_def handle_running_def world_running_def)
  have st: "stop (handle_running, world_running)
       = Inr (PluginProcess_init, world_init\<lparr>nonblocking := {5}\<rparr>)"
    by (simp add: stop_def pclose_def remove_file_def handle_running_def world_running_def
        PluginProcess_init_def world_init_def)
  have r: "running handle_running" "\<not> running PluginProcess_init"
    by (simp_all add: running_def handle_running_def PluginProcess_init_def)
  show ?thesis
    using on_data_stop_policy [of EAGAIN "(handle_running, world_running, Some GraphWindow_init)"
        "Error EIO" EIO handle_running world_running "Some GraphWindow_init"] ok st r
    by simp
qed





section \<open>Properties of the line handler\<close>

lemmas scan_defs = scan_float_def scan_magnitude_def scan_number_def scan_exponent_def scan_nan_tag_def
  is_hex_prefix_def round_double_def scale_def digits_value_def digit_val_def isdigit_def isxdigit_def
  is_nchar_def isspace_def tolower_def skip_ws_def c_str_def sscanf_def fmt_SET_def fmt_PRESET_def EOF_def






















section \<open>Properties of the reassembly of lines\<close>

lemma split_lines_no_nl: "CHR 0x0A \<notin> set buf \<Longrightarrow> split_lines buf = ([], buf)"
  by (induction buf) auto

lemma split_lines_nl:
  assumes "CHR 0x0A \<in> set buf"
  shows "split_lines buf =
       (take (length (takeWhile (\<lambda>x. x \<noteq> CHR 0x0A) buf)) buf
          # fst (split_lines (drop (length (takeWhile (\<lambda>x. x \<noteq> CHR 0x0A) buf) + 1) buf)),
        snd (split_lines (drop (length (takeWhile (\<lambda>x. x \<noteq> CHR 0x0A) buf) + 1) buf)))"
  using assms
proof (induction buf)
  case Nil
  then show ?case by simp
next
  case (Cons c cs)
  show ?case
  proof (cases "c = CHR 0x0A")
    case True
    then show ?thesis by (simp add: split_beta)
  next
    case False
    with Cons.prems have "CHR 0x0A \<in> set cs" by simp
    from Cons.IH [OF this] False show ?thesis by (simp add: split_beta)
  qed
qed

lemma drain_split:
  "drain h buf s =
     (case run_lines h (fst (split_lines buf)) s of
        Inl e \<Rightarrow> Inl e
      | Inr s' \<Rightarrow> Inr (snd (split_lines buf), s'))"
proof (induction h buf s rule: drain.induct)
  case (1 h buf s)
  show ?case
  proof (cases "CHR 0x0A \<in> set buf")
    case False
    then show ?thesis
      by (subst drain.simps) (simp add: find_char_def split_lines_no_nl)
  next
    case True
    let ?pos = "length (takeWhile (\<lambda>x. x \<noteq> CHR 0x0A) buf)"
    have f: "find_char (CHR 0x0A) buf = Some ?pos"
      using True by (simp add: find_char_def)
    note sp = split_lines_nl [OF True]
    show ?thesis
    proof (cases "h (take ?pos buf) s")
      case (Inl e)
      have "drain h buf s = Inl e"
        by (subst drain.simps) (simp add: f Inl)
      then show ?thesis
        by (simp add: sp Inl)
    next
      case (Inr s')
      have step: "drain h buf s = drain h (drop (?pos + 1) buf) s'"
        by (subst drain.simps) (simp add: f Inr)
      have ih: "drain h (drop (?pos + 1) buf) s' =
          (case run_lines h (fst (split_lines (drop (?pos + 1) buf))) s' of
             Inl e \<Rightarrow> Inl e
           | Inr t \<Rightarrow> Inr (snd (split_lines (drop (?pos + 1) buf)), t))"
        using "1.IH" [OF f Inr] .
      have "run_lines h (fst (split_lines buf)) s =
          run_lines h (fst (split_lines (drop (?pos + 1) buf))) s'"
        by (subst sp) (simp add: Inr)
      moreover have "snd (split_lines buf) = snd (split_lines (drop (?pos + 1) buf))"
        by (subst sp) simp
      ultimately show ?thesis
        by (simp only: step ih)
    qed
  qed
qed

lemma run_lines_append:
  "run_lines h (xs @ ys) s = (case run_lines h xs s of Inl e \<Rightarrow> Inl e | Inr s' \<Rightarrow> run_lines h ys s')"
  by (induction xs arbitrary: s) (auto split: sum.splits)

lemma split_lines_append:
  "split_lines (x @ y) =
     (fst (split_lines x) @ fst (split_lines (snd (split_lines x) @ y)),
      snd (split_lines (snd (split_lines x) @ y)))"
proof (induction x)
  case Nil
  then show ?case by simp
next
  case (Cons c cs)
  then show ?case
    by (auto simp: split_beta split: list.splits)
qed

lemma split_lines_sound:
  "concat (map (\<lambda>l. l @ [CHR 0x0A]) (fst (split_lines buf))) @ snd (split_lines buf) = buf
   \<and> CHR 0x0A \<notin> set (snd (split_lines buf))
   \<and> (\<forall>l \<in> set (fst (split_lines buf)). CHR 0x0A \<notin> set l)"
  by (induction buf) (auto simp: split_beta split: list.splits)

lemma c_str_id: "CHR 0x00 \<notin> set bs \<Longrightarrow> c_str bs = bs"
  by (auto simp: c_str_def takeWhile_eq_all_conv)

lemma on_data_with_bytes:
  assumes "bs \<noteq> []" "CHR 0x00 \<notin> set bs"
  shows "on_data_with h (Bytes bs) (pp, w, s) =
     (case run_lines h (fst (split_lines (line_buf pp @ bs))) s of
        Inl e \<Rightarrow> Inl e
      | Inr s' \<Rightarrow> Inr (pp\<lparr>line_buf := snd (split_lines (line_buf pp @ bs))\<rparr>, w, s'))"
  using assms by (simp add: on_data_with_def c_str_id drain_split split: sum.splits)

lemma feed_chunks:
  assumes "\<forall>bs \<in> set cs. bs \<noteq> [] \<and> CHR 0x00 \<notin> set bs" "CHR 0x0A \<notin> set (line_buf pp)"
  shows "feed h (map Bytes cs) (pp, w, s) =
     (case run_lines h (fst (split_lines (line_buf pp @ concat cs))) s of
        Inl e \<Rightarrow> Inl e
      | Inr s' \<Rightarrow> Inr (pp\<lparr>line_buf := snd (split_lines (line_buf pp @ concat cs))\<rparr>, w, s'))"
  using assms
proof (induction cs arbitrary: pp s)
  case Nil
  then show ?case
    by (simp add: split_lines_no_nl)
next
  case (Cons c cs)
  let ?L = "fst (split_lines (line_buf pp @ c))"
  let ?R = "snd (split_lines (line_buf pp @ c))"
  have c: "c \<noteq> []" "CHR 0x00 \<notin> set c" and rest: "\<forall>bs \<in> set cs. bs \<noteq> [] \<and> CHR 0x00 \<notin> set bs"
    using Cons.prems(1) by auto
  have first: "on_data_with h (Bytes c) (pp, w, s) =
      (case run_lines h ?L s of Inl e \<Rightarrow> Inl e | Inr s' \<Rightarrow> Inr (pp\<lparr>line_buf := ?R\<rparr>, w, s'))"
    by (rule on_data_with_bytes [OF c])
  have nonl: "CHR 0x0A \<notin> set (line_buf (pp\<lparr>line_buf := ?R\<rparr>))"
    using split_lines_sound [of "line_buf pp @ c"] by simp
  have sp: "split_lines (line_buf pp @ c @ concat cs) =
      (?L @ fst (split_lines (?R @ concat cs)), snd (split_lines (?R @ concat cs)))"
    using split_lines_append [of "line_buf pp @ c" "concat cs"] by simp
  show ?case
  proof (cases "run_lines h ?L s")
    case (Inl e)
    then show ?thesis
      by (simp add: first sp run_lines_append)
  next
    case (Inr s')
    have "feed h (map Bytes (c # cs)) (pp, w, s) = feed h (map Bytes cs) (pp\<lparr>line_buf := ?R\<rparr>, w, s')"
      by (simp add: first Inr)
    also have "\<dots> = (case run_lines h (fst (split_lines (?R @ concat cs))) s' of
        Inl e \<Rightarrow> Inl e
      | Inr t \<Rightarrow> Inr (pp\<lparr>line_buf := snd (split_lines (?R @ concat cs))\<rparr>, w, t))"
      using Cons.IH [OF rest nonl, of s'] by (simp split: sum.splits)
    finally show ?thesis
      by (simp add: sp run_lines_append Inr split: sum.splits)
  qed
qed


text \<open>
  C4, as the claim states it, fails: of a chunk that holds a NUL byte, only the bytes
  before it are appended to the buffer, so the two complete segments of this chunk are
  never handed to the line handler.
\<close>

theorem nul_byte_truncates_chunk:
  "feed record_line [Bytes (''SET a 1'' @ [CHR 0x00, CHR 0x0A] @ ''SET b 2'' @ [CHR 0x0A])]
       (handle_running\<lparr>line_buf := []\<rparr>, world_running, [])
     = Inr (handle_running\<lparr>line_buf := ''SET a 1''\<rparr>, world_running, [])
   \<and> split_lines (''SET a 1'' @ [CHR 0x00, CHR 0x0A] @ ''SET b 2'' @ [CHR 0x0A])
     = ([''SET a 1'' @ [CHR 0x00], ''SET b 2''], [])"
  by (simp add: on_data_with_def c_str_def drain_split handle_running_def)

text \<open>
  C4, amended: for every sequence of non-empty chunks without NUL bytes, read into a
  buffer that holds no newline, and every line handler: the callbacks hand to the
  handler exactly the newline-terminated segments of the buffer followed by the chunks,
  each once and in order (up to the first fault of the handler), and leave the trailing
  partial segment in the buffer. The segments and the partial segment are free of
  newlines and, with the newlines put back, make up the whole input.
\<close>

theorem feed_reassembly:
  assumes "\<forall>bs \<in> set cs. bs \<noteq> [] \<and> CHR 0x00 \<notin> set bs" "CHR 0x0A \<notin> set (line_buf pp)"
  shows "feed h (map Bytes cs) (pp, w, s) =
       (case run_lines h (fst (split_lines (line_buf pp @ concat cs))) s of
          Inl e \<Rightarrow> Inl e
        | Inr s' \<Rightarrow> Inr (pp\<lparr>line_buf := snd (split_lines (line_buf pp @ concat cs))\<rparr>, w, s'))
     \<and> concat (map (\<lambda>l. l @ [CHR 0x0A]) (fst (split_lines (line_buf pp @ concat cs))))
           @ snd (split_lines (line_buf pp @ concat cs)) = line_buf pp @ concat cs
     \<and> CHR 0x0A \<notin> set (snd (split_lines (line_buf pp @ concat cs)))
     \<and> (\<forall>l \<in> set (fst (split_lines (line_buf pp @ concat cs))). CHR 0x0A \<notin> set l)"
  using feed_chunks [OF assms, of h w s] split_lines_sound [of "line_buf pp @ concat cs"]
  by blast

theorem feed_reassembly_witness:
  "feed record_line [Bytes (''SET a 1.0'' @ [CHR 0x0A] @ ''SET b'')]
       (handle_running\<lparr>line_buf := []\<rparr>, world_running, [])
     = Inr (handle_running\<lparr>line_buf := ''SET b''\<rparr>, world_running, [''SET a 1.0''])
   \<and> feed record_line [Bytes ('' 2.0'' @ [CHR 0x0A] @ ''PRESET circle'' @ [CHR 0x0A])]
       (handle_running\<lparr>line_buf := ''SET b''\<rparr>, world_running, [])
     = Inr (handle_running\<lparr>line_buf := []\<rparr>, world_running, [''SET b 2.0'', ''PRESET circle''])
   \<and> map decode [''SET a 1.0'', ''SET b 2.0'', ''PRESET circle'']
     = [Some (SetMsg ''a'' (Finite 1)), Some (SetMsg ''b'' (Finite 2)), Some (PresetMsg ''circle'')]"
proof -
  have a: "feed record_line [Bytes (''SET a 1.0'' @ [CHR 0x0A] @ ''SET b'')]
       (handle_running\<lparr>line_buf := []\<rparr>, world_running, [])
     = Inr (handle_running\<lparr>line_buf := ''SET b''\<rparr>, world_running, [''SET a 1.0''])"
    using feed_reassembly [of "[''SET a 1.0'' @ [CHR 0x0A] @ ''SET b'']"
        "handle_running\<lparr>line_buf := []\<rparr>" record_line world_running "[]"]
    by (simp add: record_line_def)
  have b: "feed record_line [Bytes ('' 2.0'' @ [CHR 0x0A] @ ''PRESET circle'' @ [CHR 0x0A])]
       (handle_running\<lparr>line_buf := ''SET b''\<rparr>, world_running, [])
     = Inr (handle_running\<lparr>line_buf := []\<rparr>, world_running, [''SET b 2.0'', ''PRESET circle''])"
    using feed_reassembly [of "['' 2.0'' @ [CHR 0x0A] @ ''PRESET circle'' @ [CHR 0x0A]]"
        "handle_running\<lparr>line_buf := ''SET b''\<rparr>" record_line world_running "[]"]
    by (simp add: record_line_def)
  have c: "map decode [''SET a 1.0'', ''SET b 2.0'', ''PRESET circle'']
     = [Some (SetMsg ''a'' (Finite 1)), Some (SetMsg ''b'' (Finite 2)), Some (PresetMsg ''circle'')]"
    by (simp add: decode_def scan_defs Let_def)
  show ?thesis using a b c by simp
qed

text \<open>The same reads with \<open>process_line\<close> as the handler update the store in order.\<close>

lemma on_data_example:
  "feed process_line
       [Bytes (''SET a 1.0'' @ [CHR 0x0A] @ ''SET b''),
        Bytes ('' 2.0'' @ [CHR 0x0A] @ ''SET delta 0.5'' @ [CHR 0x0A])]
       (handle_running\<lparr>line_buf := []\<rparr>, world_running, Some GraphWindow_init)
     = Inr (handle_running\<lparr>line_buf := []\<rparr>, world_running,
            Some \<lparr>params = GraphParams_init\<lparr>p_a := Finite 1, p_b := Finite 2, p_delta := Finite 0.5\<rparr>,
                  shown = True\<rparr>)"
  by (simp add: on_data_with_def c_str_def drain_split handle_running_def process_line_def scan_defs
      Let_def set_param_def show_window_def GraphWindow_init_def)

end
